theory Spec2Isabelle
  imports Main "HOL-Library.Word"
begin

section \<open>Assets service: data model\<close>

text \<open>
  The repository holds two versions of the asset orchestrator in package \<open>services\<close>:
  \<^item> \<open>internal/core/services/assets_service.go\<close>, embedded below with suffix \<open>_v1\<close>;
  \<^item> the second file of \<open>unnamed/part_008\<close>, embedded with suffix \<open>_v2\<close>.
  Both are translated statement by statement. Go pointers (\<open>*string\<close>) are options,
  \<open>[]byte\<close> is a list of 8-bit words, \<open>json.RawMessage\<close> and \<open>uuid.UUID\<close> are kept in
  their text form, \<open>(T, error)\<close> results are sums with the error on the left, and a
  run-time panic is a value of its own.
\<close>

type_synonym bytes = "8 word list"
type_synonym json_raw = string

subsection \<open>Errors (internal/core/domain/errors.go)\<close>

type_synonym UserError = string

definition UnauthorizedError :: UserError where
  "UnauthorizedError = ''unauthorized_error''"

definition ResourceNotFoundError :: UserError where
  "ResourceNotFoundError = ''resource_not_found_error''"

definition UnableToDeleteError :: UserError where
  "UnableToDeleteError = ''unable_to_delete_error''"

definition UnableToMarshalError :: UserError where
  "UnableToMarshalError = ''unable_to_marshal_error''"

definition UnableToUploadError :: UserError where
  "UnableToUploadError = ''unable_to_upload_error''"

datatype grpc_code = InvalidArgument | Internal

text \<open>
  \<open>ErrorsNew\<close> is \<open>errors.New\<close> (and \<open>fmt.Errorf\<close> without a wrapped error),
  \<open>Wrapf m e\<close> is \<open>fmt.Errorf(m + ": %w", e)\<close>, \<open>DomainError\<close> is the struct of
  that name and \<open>StatusErrorf\<close> is \<open>status.Errorf\<close> of the gRPC library.
\<close>

datatype error =
    ErrorsNew string
  | Wrapf string error
  | DomainError UserError string error
  | StatusErrorf grpc_code string "error option"

definition NewDomainError :: "UserError \<Rightarrow> string \<Rightarrow> error option \<Rightarrow> error" where
  "NewDomainError code message err =
     (case err of
        None \<Rightarrow> DomainError code message (ErrorsNew ''Asset not found'')
      | Some e \<Rightarrow> DomainError code message e)"

datatype 'a outcome = Returns 'a | Panics string

subsection \<open>Asset and CreateAssetDto (package domain)\<close>

record Asset =
  ID :: string
  URL :: string
  PublicURL :: string
  Filename :: string
  FileSize :: int
  Metadata :: json_raw
  Secure :: bool
  StorageKey :: "string option"
  StorageProvider :: "string option"
  ResourceID :: "string option"
  ResourceType :: "string option"
  ContentType :: string
  UserID :: "string option"
  AccessLevel :: string
  AllowedRoles :: "string list"
  IsEncrypted :: bool
  EncryptionKey :: "string option"
  LastAccessedAt :: "string option"
  DeletedAt :: "string option"
  Tags :: "string list"
  CreatedAt :: string
  UpdatedAt :: string
  Active :: bool
  FileHash :: string

text \<open>The fields of \<open>CreateAssetDto\<close> carry the suffix \<open>_dto\<close>.\<close>

record CreateAssetDto =
  URL_dto :: string
  PublicURL_dto :: "string option"
  Filename_dto :: string
  FileSize_dto :: int
  Metadata_dto :: json_raw
  Secure_dto :: bool
  FileHash_dto :: string
  StorageKey_dto :: "string option"
  StorageProvider_dto :: "string option"
  ResourceID_dto :: "string option"
  ResourceType_dto :: "string option"
  ContentType_dto :: string
  UserID_dto :: "string option"
  AccessLevel_dto :: string
  AllowedRoles_dto :: "string list"
  IsEncrypted_dto :: bool
  EncryptionKey_dto :: "string option"
  Tags_dto :: "string list"

subsection \<open>The backends behind the ports\<close>

text \<open>
  Every call that leaves the orchestrator is recorded in \<open>calls\<close>, in order. The
  logger is a list of (level, message) pairs; the structured fields of a log line
  are dropped.
\<close>

datatype call =
    StoreUploadFile string
  | StoreDeleteFile string
  | RepoCreateAsset
  | RepoGetAssetByID string
  | RepoDeleteAsset string
  | CacheSet string
  | CacheGet string
  | CacheDelete string
  | PublishAvatarUpdated string string

datatype level = Info | Error | Warn | Debug

record world =
  objects :: "string \<rightharpoonup> bytes \<times> string"
  assets :: "Asset list"
  cache :: "string \<rightharpoonup> Asset"
  published :: "(string \<times> string) list"
  calls :: "call list"
  logs :: "(level \<times> string) list"

text \<open>
  What the orchestrator does not decide is a parameter: which backend calls hit an
  I/O failure (\<open>fault\<close>), the clock, the generated identifiers, SHA-256, the JSON
  library and the storage configuration. \<open>GetStoreKey\<close> and \<open>GetMetadata\<close> are
  methods of \<open>CreateAssetDto\<close> that the second orchestrator calls; their bodies are
  not among the sources, so they are parameters too.
\<close>

record env =
  fault :: "call \<Rightarrow> error option"
  sha256hex :: "bytes \<Rightarrow> string"
  now_unix :: int
  new_uuid :: string
  db_uuid :: "nat \<Rightarrow> string"
  db_now :: string
  UseSSL :: bool
  Endpoint :: string
  bucketName :: string
  json_is_object :: "json_raw \<Rightarrow> bool"
  json_marshal_metadata :: "string \<Rightarrow> int \<Rightarrow> string \<Rightarrow> json_raw option \<Rightarrow> error + json_raw"
  GetStoreKey :: "CreateAssetDto \<Rightarrow> string"
  GetMetadata :: "CreateAssetDto \<Rightarrow> string \<Rightarrow> string \<Rightarrow> json_raw"

definition logf :: "level \<Rightarrow> string \<Rightarrow> world \<Rightarrow> world" where
  "logf lvl msg w = w\<lparr>logs := logs w @ [(lvl, msg)]\<rparr>"

definition called :: "call \<Rightarrow> world \<Rightarrow> world" where
  "called c w = w\<lparr>calls := calls w @ [c]\<rparr>"

subsection \<open>Object store (internal/adapters/minio/storage.go)\<close>

definition TrimPrefix :: "string \<Rightarrow> string \<Rightarrow> string" where
  "TrimPrefix s p = (if take (length p) s = p then drop (length p) s else s)"

definition generateFileURL :: "env \<Rightarrow> string \<Rightarrow> string" where
  "generateFileURL e key =
     (if UseSSL e then ''https'' else ''http'') @ ''://'' @ Endpoint e @ ''/'' @
       bucketName e @ ''/'' @ TrimPrefix key ''/''"

definition UploadFile ::
  "env \<Rightarrow> string \<Rightarrow> bytes \<Rightarrow> string \<Rightarrow> world \<Rightarrow> (error + string) \<times> world" where
  "UploadFile e key data contentType w =
     (let w1 = called (StoreUploadFile key) w in
      case fault e (StoreUploadFile key) of
        Some err \<Rightarrow> (Inl (NewDomainError UnableToUploadError ''failed to upload file'' (Some err)), w1)
      | None \<Rightarrow>
          (Inr (generateFileURL e key),
           w1\<lparr>objects := (objects w1)(key \<mapsto> (data, contentType))\<rparr>))"

definition DeleteFile :: "env \<Rightarrow> string \<Rightarrow> world \<Rightarrow> error option \<times> world" where
  "DeleteFile e key w =
     (let w1 = called (StoreDeleteFile key) w in
      case fault e (StoreDeleteFile key) of
        Some err \<Rightarrow> (Some (NewDomainError UnableToDeleteError ''failed to delete file'' (Some err)), w1)
      | None \<Rightarrow> (None, w1\<lparr>objects := (objects w1)(key := None)\<rparr>))"

subsection \<open>Metadata repository (the postgres adapter, unnamed/part\_006)\<close>

text \<open>
  The table is the list of its rows. \<open>inserted_row\<close> is the row that
  \<open>INSERT ... RETURNING\<close> gives back: the columns of the DTO, the identifier and
  timestamps generated by the database, the column defaults of the migration and
  the \<open>public_url\<close> set by the trigger.
\<close>

definition inserted_row :: "env \<Rightarrow> nat \<Rightarrow> CreateAssetDto \<Rightarrow> Asset" where
  "inserted_row e n d =
     \<lparr> ID = db_uuid e n,
       URL = URL_dto d,
       PublicURL = ''/assets/'' @ db_uuid e n,
       Filename = Filename_dto d,
       FileSize = FileSize_dto d,
       Metadata = Metadata_dto d,
       Secure = Secure_dto d,
       StorageKey = StorageKey_dto d,
       StorageProvider = StorageProvider_dto d,
       ResourceID = ResourceID_dto d,
       ResourceType = ResourceType_dto d,
       ContentType = ContentType_dto d,
       UserID = UserID_dto d,
       AccessLevel = AccessLevel_dto d,
       AllowedRoles = AllowedRoles_dto d,
       IsEncrypted = IsEncrypted_dto d,
       EncryptionKey = EncryptionKey_dto d,
       LastAccessedAt = None,
       DeletedAt = None,
       Tags = Tags_dto d,
       CreatedAt = db_now e,
       UpdatedAt = db_now e,
       Active = True,
       FileHash = FileHash_dto d \<rparr>"

definition live_row :: "string \<Rightarrow> Asset \<Rightarrow> bool" where
  "live_row assetID a = (ID a = assetID \<and> Active a \<and> DeletedAt a = None)"

definition repo_CreateAsset ::
  "env \<Rightarrow> CreateAssetDto \<Rightarrow> world \<Rightarrow> (error + Asset) \<times> world" where
  "repo_CreateAsset e d w =
     (let w1 = called RepoCreateAsset w in
      case fault e RepoCreateAsset of
        Some err \<Rightarrow> (Inl (Wrapf ''failed to create asset'' err), w1)
      | None \<Rightarrow>
          (let a = inserted_row e (length (assets w1)) d
           in (Inr a, w1\<lparr>assets := assets w1 @ [a]\<rparr>)))"

definition repo_GetAssetByID ::
  "env \<Rightarrow> string \<Rightarrow> world \<Rightarrow> (error + Asset) \<times> world" where
  "repo_GetAssetByID e assetID w =
     (let w1 = called (RepoGetAssetByID assetID) w in
      case fault e (RepoGetAssetByID assetID) of
        Some err \<Rightarrow> (Inl (Wrapf ''failed to get asset'' err), w1)
      | None \<Rightarrow>
          (case find (live_row assetID) (assets w1) of
             None \<Rightarrow> (Inl (ErrorsNew ''asset not found''), w1)
           | Some a \<Rightarrow> (Inr a, w1)))"

definition soft_delete :: "env \<Rightarrow> string \<Rightarrow> Asset \<Rightarrow> Asset" where
  "soft_delete e assetID a =
     (if live_row assetID a
      then a\<lparr>DeletedAt := Some (db_now e), UpdatedAt := db_now e\<rparr>
      else a)"

definition repo_DeleteAsset :: "env \<Rightarrow> string \<Rightarrow> world \<Rightarrow> error option \<times> world" where
  "repo_DeleteAsset e assetID w =
     (let w1 = called (RepoDeleteAsset assetID) w in
      case fault e (RepoDeleteAsset assetID) of
        Some err \<Rightarrow> (Some (Wrapf ''failed to delete asset'' err), w1)
      | None \<Rightarrow>
          (if find (live_row assetID) (assets w1) = None
           then (Some (ErrorsNew ''asset not found''), w1)
           else (None, w1\<lparr>assets := map (soft_delete e assetID) (assets w1)\<rparr>)))"

subsection \<open>Cache and event publisher (ports.CacheService, ports.EventPublisher)\<close>

text \<open>
  Modelled from the spec: the cache behind \<open>ports.CacheService\<close> and the publisher
  behind \<open>PublishAvatarUpdated\<close>, whose adapters are not among the sources. Following
  section 6 of the specification, the cache is a key-value store whose \<open>set\<close> and
  \<open>delete\<close> return nothing or an error and whose \<open>get\<close> returns the value, a miss
  or an error (a miss is an error value for the caller, who tests \<open>err == nil\<close>);
  the time to live is always 0 in the callers and is left out. The publisher keeps
  the list of published (user, avatar URL) pairs.
\<close>

definition cache_Set :: "env \<Rightarrow> string \<Rightarrow> Asset \<Rightarrow> world \<Rightarrow> error option \<times> world" where
  "cache_Set e key v w =
     (let w1 = called (CacheSet key) w in
      case fault e (CacheSet key) of
        Some err \<Rightarrow> (Some err, w1)
      | None \<Rightarrow> (None, w1\<lparr>cache := (cache w1)(key \<mapsto> v)\<rparr>))"

definition cache_Get :: "env \<Rightarrow> string \<Rightarrow> world \<Rightarrow> (error + Asset) \<times> world" where
  "cache_Get e key w =
     (let w1 = called (CacheGet key) w in
      case fault e (CacheGet key) of
        Some err \<Rightarrow> (Inl err, w1)
      | None \<Rightarrow>
          (case cache w1 key of
             None \<Rightarrow> (Inl (ErrorsNew ''cache miss''), w1)
           | Some a \<Rightarrow> (Inr a, w1)))"

definition cache_Delete :: "env \<Rightarrow> string \<Rightarrow> world \<Rightarrow> error option \<times> world" where
  "cache_Delete e key w =
     (let w1 = called (CacheDelete key) w in
      case fault e (CacheDelete key) of
        Some err \<Rightarrow> (Some err, w1)
      | None \<Rightarrow> (None, w1\<lparr>cache := (cache w1)(key := None)\<rparr>))"

definition publish_AvatarUpdated ::
  "env \<Rightarrow> string \<Rightarrow> string \<Rightarrow> world \<Rightarrow> error option \<times> world" where
  "publish_AvatarUpdated e userID avatarURL w =
     (let w1 = called (PublishAvatarUpdated userID avatarURL) w in
      case fault e (PublishAvatarUpdated userID avatarURL) of
        Some err \<Rightarrow> (Some err, w1)
      | None \<Rightarrow> (None, w1\<lparr>published := published w1 @ [(userID, avatarURL)]\<rparr>))"

section \<open>The asset orchestrator\<close>

subsection \<open>Formatting helpers (fmt.Sprintf)\<close>

definition digit_char :: "nat \<Rightarrow> char" where
  "digit_char n = ''0123456789'' ! (n mod 10)"

function string_of_nat :: "nat \<Rightarrow> string" where
  "string_of_nat n =
     (if n < 10 then [digit_char n] else string_of_nat (n div 10) @ [digit_char n])"
  by pat_completeness auto
termination
  by (relation "measure id") auto

declare string_of_nat.simps [simp del]

text \<open>The verb \<open>%d\<close> applied to an \<open>int64\<close>.\<close>

definition itoa :: "int \<Rightarrow> string" where
  "itoa i = (if i < 0 then ''-'' @ string_of_nat (nat (- i)) else string_of_nat (nat i))"

text \<open>\<open>p != nil && *p != ""\<close> for a \<open>*string\<close>.\<close>

definition nonempty_ptr :: "string option \<Rightarrow> bool" where
  "nonempty_ptr p = (case p of None \<Rightarrow> False | Some s \<Rightarrow> s \<noteq> [])"

subsection \<open>UploadAsset, internal/core/services/assets\_service.go\<close>

text \<open>
  Lines 51 to 56: the storage key. In the second condition the right operand
  \<open>(createDto.ResourceID != nil || *createDto.ResourceID != "")\<close> is evaluated left
  to right: a non-nil pointer makes it true at once, a nil pointer makes Go evaluate
  \<open>*createDto.ResourceID\<close>, which panics. With no branch taken the key keeps its
  initial value, the empty string.
\<close>

definition UploadAsset_fileKey :: "CreateAssetDto \<Rightarrow> string \<Rightarrow> string outcome" where
  "UploadAsset_fileKey createDto uniqueSlug =
     (if nonempty_ptr (ResourceType_dto createDto) \<and> nonempty_ptr (ResourceID_dto createDto)
      then Returns (the (ResourceType_dto createDto) @ ''/'' @
                    the (ResourceID_dto createDto) @ ''/'' @ uniqueSlug)
      else if nonempty_ptr (ResourceType_dto createDto)
      then (case ResourceID_dto createDto of
              Some rid \<Rightarrow> Returns (the (ResourceType_dto createDto) @ ''/'' @ uniqueSlug)
            | None \<Rightarrow> Panics ''invalid memory address or nil pointer dereference'')
      else Returns [])"

definition uniqueSlug_of :: "env \<Rightarrow> CreateAssetDto \<Rightarrow> string" where
  "uniqueSlug_of e createDto = itoa (now_unix e) @ ''_'' @ Filename_dto createDto"

text \<open>Lines 75 to 92: the metadata document, merged with the caller's when that parses.\<close>

definition UploadAsset_metadata ::
  "env \<Rightarrow> CreateAssetDto \<Rightarrow> string \<Rightarrow> string \<Rightarrow> world \<Rightarrow> (error + json_raw) \<times> world" where
  "UploadAsset_metadata e createDto fileHash fileKey w =
     (if Metadata_dto createDto \<noteq> []
      then (if json_is_object e (Metadata_dto createDto)
            then (json_marshal_metadata e fileHash (now_unix e) fileKey
                    (Some (Metadata_dto createDto)), w)
            else (json_marshal_metadata e fileHash (now_unix e) fileKey None,
                  logf Warn ''Failed to unmarshal custom metadata, ignoring'' w))
      else (json_marshal_metadata e fileHash (now_unix e) fileKey None, w))"

definition assetDto_v1 ::
  "CreateAssetDto \<Rightarrow> string \<Rightarrow> string \<Rightarrow> string \<Rightarrow> int \<Rightarrow> json_raw \<Rightarrow> string \<Rightarrow> CreateAssetDto" where
  "assetDto_v1 createDto fileKey assetURL publicUrl fileSize metadataJSON fileHash =
     \<lparr> URL_dto = assetURL,
       PublicURL_dto = Some publicUrl,
       Filename_dto = Filename_dto createDto,
       FileSize_dto = fileSize,
       Metadata_dto = metadataJSON,
       Secure_dto = Secure_dto createDto,
       FileHash_dto = fileHash,
       StorageKey_dto = Some fileKey,
       StorageProvider_dto = Some ''minio'',
       ResourceID_dto = ResourceID_dto createDto,
       ResourceType_dto = ResourceType_dto createDto,
       ContentType_dto = ContentType_dto createDto,
       UserID_dto = UserID_dto createDto,
       AccessLevel_dto = AccessLevel_dto createDto,
       AllowedRoles_dto = [],
       IsEncrypted_dto = IsEncrypted_dto createDto,
       EncryptionKey_dto = EncryptionKey_dto createDto,
       Tags_dto = Tags_dto createDto \<rparr>"

text \<open>Lines 122 to 132: the rollback after a failed save.\<close>

definition rollback_upload :: "env \<Rightarrow> string \<Rightarrow> world \<Rightarrow> world" where
  "rollback_upload e fileKey w =
     (case DeleteFile e fileKey w of
        (Some deleteErr, w1) \<Rightarrow> logf Error ''Failed to rollback file upload'' w1
      | (None, w1) \<Rightarrow> w1)"

text \<open>Best-effort cache population: a failure is logged and dropped.\<close>

definition cache_asset :: "env \<Rightarrow> string \<Rightarrow> Asset \<Rightarrow> world \<Rightarrow> world" where
  "cache_asset e cacheKey a w =
     (case cache_Set e cacheKey a w of
        (Some err, w1) \<Rightarrow> logf Error ''Failed to cache asset'' w1
      | (None, w1) \<Rightarrow> w1)"

definition UploadAsset_v1 ::
  "env \<Rightarrow> CreateAssetDto \<Rightarrow> bytes \<Rightarrow> world \<Rightarrow> (error + Asset) outcome \<times> world" where
  "UploadAsset_v1 e createDto fileData w =
     (let w0 = logf Info ''Uploading asset'' w;
          assetID = new_uuid e;
          uniqueSlug = uniqueSlug_of e createDto
      in case UploadAsset_fileKey createDto uniqueSlug of
           Panics p \<Rightarrow> (Panics p, w0)
         | Returns fileKey \<Rightarrow>
             (case UploadFile e fileKey fileData (ContentType_dto createDto)
                     (logf Info ''Generated file key for storage'' w0) of
                (Inl err, w1) \<Rightarrow>
                  (Returns (Inl (Wrapf ''failed to upload file to storage'' err)),
                   logf Error ''Failed to upload file to storage'' w1)
              | (Inr assetURL, w1) \<Rightarrow>
                  (let fileHash = sha256hex e fileData in
                   case UploadAsset_metadata e createDto fileHash fileKey
                          (logf Info ''File uploaded to storage'' w1) of
                     (Inl err, w2) \<Rightarrow>
                       (Returns (Inl (NewDomainError UnableToMarshalError
                                        ''Failed to marshal metadata'' (Some err))), w2)
                   | (Inr metadataJSON, w2) \<Rightarrow>
                       (let publicUrl = ''assets/'' @ assetID;
                            fileSize = int (length fileData);
                            assetDto = assetDto_v1 createDto fileKey assetURL publicUrl
                                         fileSize metadataJSON fileHash
                        in case repo_CreateAsset e assetDto w2 of
                             (Inl err, w3) \<Rightarrow>
                               (Returns (Inl (NewDomainError UnableToMarshalError
                                                ''Failed to save asset metadata'' (Some err))),
                                rollback_upload e fileKey
                                  (logf Error ''Failed to save asset metadata'' w3))
                           | (Inr savedAsset, w3) \<Rightarrow>
                               (Returns (Inr savedAsset),
                                logf Info ''Asset uploaded successfully''
                                  (cache_asset e (''asset:'' @ assetID) savedAsset w3))))))"

subsection \<open>GetAssetByID and DeleteAsset, internal/core/services/assets\_service.go\<close>

definition GetAssetByID_v1 :: "env \<Rightarrow> string \<Rightarrow> world \<Rightarrow> (error + Asset) \<times> world" where
  "GetAssetByID_v1 e assetID w =
     (case cache_Get e assetID (logf Info ''Getting asset by ID'' w) of
        (Inr asset, w1) \<Rightarrow> (Inr asset, w1)
      | (Inl cacheErr, w1) \<Rightarrow>
          (case repo_GetAssetByID e assetID w1 of
             (Inl err, w2) \<Rightarrow>
               (Inl (NewDomainError ResourceNotFoundError ''Asset not found'' (Some err)),
                logf Error ''Failed to get asset by ID'' w2)
           | (Inr asset, w2) \<Rightarrow> (Inr asset, w2)))"

text \<open>\<open>asset.UserID != nil && *asset.UserID != userID\<close>\<close>

definition not_owner :: "Asset \<Rightarrow> string \<Rightarrow> bool" where
  "not_owner asset userID = (case UserID asset of None \<Rightarrow> False | Some owner \<Rightarrow> owner \<noteq> userID)"

definition DeleteAsset_v1 :: "env \<Rightarrow> string \<Rightarrow> string \<Rightarrow> world \<Rightarrow> error option \<times> world" where
  "DeleteAsset_v1 e assetID userID w =
     (case repo_GetAssetByID e assetID (logf Info ''Deleting asset'' w) of
        (Inl err, w1) \<Rightarrow>
          (Some (NewDomainError ResourceNotFoundError ''Asset not found'' (Some err)),
           logf Error ''Failed to get asset for deletion'' w1)
      | (Inr asset, w1) \<Rightarrow>
          (if not_owner asset userID
           then (Some (NewDomainError UnauthorizedError ''Asset does not belong to user'' None),
                 logf Warn ''Unauthorized delete attempt'' w1)
           else (case repo_DeleteAsset e assetID w1 of
                   (Some err, w2) \<Rightarrow>
                     (Some (NewDomainError UnableToDeleteError ''Failed to delete asset'' (Some err)),
                      logf Error ''Failed to delete asset'' w2)
                 | (None, w2) \<Rightarrow> (None, logf Info ''Asset deleted successfully'' w2))))"

subsection \<open>The second orchestrator, unnamed/part\_008\<close>

definition assetDto_v2 ::
  "CreateAssetDto \<Rightarrow> string \<Rightarrow> string \<Rightarrow> int \<Rightarrow> json_raw \<Rightarrow> string \<Rightarrow> CreateAssetDto" where
  "assetDto_v2 createDto fileKey assetURL fileSize metadataJSON fileHash =
     \<lparr> URL_dto = assetURL,
       PublicURL_dto = None,
       Filename_dto = Filename_dto createDto,
       FileSize_dto = fileSize,
       Metadata_dto = metadataJSON,
       Secure_dto = Secure_dto createDto,
       FileHash_dto = fileHash,
       StorageKey_dto = Some fileKey,
       StorageProvider_dto = Some ''minio'',
       ResourceID_dto = ResourceID_dto createDto,
       ResourceType_dto = ResourceType_dto createDto,
       ContentType_dto = ContentType_dto createDto,
       UserID_dto = UserID_dto createDto,
       AccessLevel_dto = AccessLevel_dto createDto,
       AllowedRoles_dto = [],
       IsEncrypted_dto = IsEncrypted_dto createDto,
       EncryptionKey_dto = EncryptionKey_dto createDto,
       Tags_dto = Tags_dto createDto \<rparr>"

definition UploadAsset_v2 ::
  "env \<Rightarrow> CreateAssetDto \<Rightarrow> bytes \<Rightarrow> world \<Rightarrow> (error + Asset) \<times> world" where
  "UploadAsset_v2 e createDto fileData w =
     (let fileHash = sha256hex e fileData;
          fileSize = int (length fileData);
          fileKey = GetStoreKey e createDto;
          metadataJSON = GetMetadata e createDto fileKey fileHash
      in case UploadFile e fileKey fileData (ContentType_dto createDto)
                (logf Info ''Uploading asset'' w) of
           (Inl err, w1) \<Rightarrow>
             (Inl (NewDomainError UnableToMarshalError ''failed to upload file to storag'' (Some err)),
              logf Error ''Failed to upload file to storage'' w1)
         | (Inr assetURL, w1) \<Rightarrow>
             (let assetDto = assetDto_v2 createDto fileKey assetURL fileSize metadataJSON fileHash
              in case repo_CreateAsset e assetDto (logf Info ''File uploaded to storage'' w1) of
                   (Inl err, w2) \<Rightarrow>
                     (Inl (NewDomainError UnableToMarshalError
                             ''Failed to save asset metadata'' (Some err)),
                      rollback_upload e fileKey (logf Error ''Failed to save asset metadata'' w2))
                 | (Inr asset, w2) \<Rightarrow>
                     (Inr asset,
                      logf Info ''Asset uploaded successfully''
                        (cache_asset e (''assets:'' @ ID asset) asset w2))))"

definition GetAssetByID_v2 :: "env \<Rightarrow> string \<Rightarrow> world \<Rightarrow> (error + Asset) \<times> world" where
  "GetAssetByID_v2 e assetID w =
     (let cacheKey = ''assets:'' @ assetID in
      case cache_Get e cacheKey (logf Info ''Getting asset by ID'' w) of
        (Inr asset, w1) \<Rightarrow> (Inr asset, w1)
      | (Inl cacheErr, w1) \<Rightarrow>
          (case repo_GetAssetByID e assetID w1 of
             (Inl err, w2) \<Rightarrow>
               (Inl (NewDomainError ResourceNotFoundError ''Asset not found'' (Some err)),
                logf Error ''Failed to get asset by ID'' w2)
           | (Inr asset, w2) \<Rightarrow> (Inr asset, cache_asset e cacheKey asset w2)))"

text \<open>Best-effort cache invalidation of \<open>DeleteAsset\<close>.\<close>

definition uncache_asset :: "env \<Rightarrow> string \<Rightarrow> world \<Rightarrow> world" where
  "uncache_asset e cacheKey w =
     (case cache_Delete e cacheKey w of
        (Some err, w1) \<Rightarrow> logf Error ''Failed to delete asset from cache'' w1
      | (None, w1) \<Rightarrow> w1)"

text \<open>
  \<open>*asset.StorageKey\<close> dereferences a nullable column (\<open>storage_key VARCHAR(500)\<close>):
  a row without a key makes the call panic.
\<close>

definition DeleteAsset_v2 ::
  "env \<Rightarrow> string \<Rightarrow> string \<Rightarrow> world \<Rightarrow> error option outcome \<times> world" where
  "DeleteAsset_v2 e assetID userID w =
     (case repo_GetAssetByID e assetID (logf Info ''Deleting asset'' w) of
        (Inl err, w1) \<Rightarrow>
          (Returns (Some (NewDomainError ResourceNotFoundError ''Asset not found'' (Some err))),
           logf Error ''Failed to get asset for deletion'' w1)
      | (Inr asset, w1) \<Rightarrow>
          (if not_owner asset userID
           then (Returns (Some (NewDomainError UnauthorizedError
                                  ''Asset does not belong to user'' None)),
                 logf Warn ''Unauthorized delete attempt'' w1)
           else (case StorageKey asset of
                   None \<Rightarrow> (Panics ''invalid memory address or nil pointer dereference'', w1)
                 | Some storageKey \<Rightarrow>
                     (case DeleteFile e storageKey w1 of
                        (Some err, w2) \<Rightarrow>
                          (Returns (Some (NewDomainError UnableToDeleteError
                                            ''Failed to delete file from storage'' (Some err))),
                           logf Error ''Failed to delete file from storage'' w2)
                      | (None, w2) \<Rightarrow>
                          (case repo_DeleteAsset e assetID
                                  (uncache_asset e (''assets:'' @ assetID) w2) of
                             (Some err, w3) \<Rightarrow>
                               (Returns (Some (NewDomainError UnableToDeleteError
                                                 ''Failed to delete asset'' (Some err))),
                                logf Error ''Failed to delete asset'' w3)
                           | (None, w3) \<Rightarrow>
                               (Returns None, logf Info ''Asset deleted successfully'' w3))))))"

section \<open>The gRPC transport handler (unnamed/part\_005)\<close>

text \<open>
  \<open>Metadata_req\<close> holds what \<open>json.Marshal(req.Metadata)\<close> gives for a non-nil
  metadata value, and \<open>None\<close> for nil. The orchestrator is reached through the
  interface \<open>ports.AssetsService\<close>, a parameter here. The reply carries the asset
  itself instead of its protobuf copy.
\<close>

record UploadAssetRequest =
  Filename_req :: string
  ContentType_req :: string
  UserId_req :: string
  FileData_req :: bytes
  ResourceId_req :: string
  ResouceType_req :: string
  Metadata_req :: "(error + json_raw) option"

type_synonym AssetsService_UploadAsset =
  "CreateAssetDto \<Rightarrow> bytes \<Rightarrow> world \<Rightarrow> (error + Asset) outcome \<times> world"

definition createDto_of_request :: "UploadAssetRequest \<Rightarrow> json_raw \<Rightarrow> CreateAssetDto" where
  "createDto_of_request req jsonMeta =
     \<lparr> URL_dto = [],
       PublicURL_dto = None,
       Filename_dto = Filename_req req,
       FileSize_dto = int (length (FileData_req req)),
       Metadata_dto = jsonMeta,
       Secure_dto = False,
       FileHash_dto = [],
       StorageKey_dto = None,
       StorageProvider_dto = None,
       ResourceID_dto = (if ResourceId_req req \<noteq> [] then Some (ResourceId_req req) else None),
       ResourceType_dto = (if ResouceType_req req \<noteq> [] then Some (ResouceType_req req) else None),
       ContentType_dto = ContentType_req req,
       UserID_dto = Some (UserId_req req),
       AccessLevel_dto = ''private'',
       AllowedRoles_dto = [],
       IsEncrypted_dto = False,
       EncryptionKey_dto = None,
       Tags_dto = [] \<rparr>"

definition Server_UploadAsset ::
  "AssetsService_UploadAsset \<Rightarrow> UploadAssetRequest \<Rightarrow> world \<Rightarrow> (error + Asset) outcome \<times> world" where
  "Server_UploadAsset assetsService req w =
     (let w0 = logf Info ''gRPC UploadAsset called'' w in
      if Filename_req req = [] \<or> UserId_req req = [] \<or> length (FileData_req req) = 0
      then (Returns (Inl (StatusErrorf InvalidArgument
                            ''filename, user_id, and file_data are required'' None)), w0)
      else (case Metadata_req req of
              Some (Inl err) \<Rightarrow>
                (Returns (Inl (StatusErrorf InvalidArgument ''invalid metadata format'' (Some err))),
                 logf Error ''Failed to marshal metadata'' w0)
            | meta \<Rightarrow>
                (let jsonMeta = (case meta of Some (Inr js) \<Rightarrow> js | _ \<Rightarrow> []);
                     createDto = createDto_of_request req jsonMeta
                 in case assetsService createDto (FileData_req req) (logf Info ''Resource2'' w0) of
                      (Panics p, w1) \<Rightarrow> (Panics p, w1)
                    | (Returns (Inl err), w1) \<Rightarrow>
                        (Returns (Inl (StatusErrorf Internal ''failed to upload asset'' (Some err))),
                         logf Error ''Failed to upload asset'' w1)
                    | (Returns (Inr asset), w1) \<Rightarrow> (Returns (Inr asset), w1))))"

section \<open>Events\<close>

subsection \<open>Envelopes (package domain, package events)\<close>

type_synonym EventType = string

typedecl float64

datatype json =
    JNull
  | JBool bool
  | JNumber float64
  | JString string
  | JArray "json list"
  | JObject "(string \<times> json) list"

record EventMetadata =
  Source :: string
  CorrelationID :: string
  CausationID :: string
  UserID_meta :: string

record DomainEvent =
  ID_ev :: string
  Type_ev :: EventType
  AggregateID :: string
  Version :: int
  Data :: "string \<rightharpoonup> json"
  Metadata_ev :: EventMetadata
  Timestamp :: string

record UserCreatedEvent =
  UserID_uc :: string
  Name :: string
  Email :: "string option"
  Phone :: "string option"
  Locale :: "string option"
  Country :: "string option"
  DeviceID :: "string option"
  NotificationToken :: "string option"
  UserType :: string

text \<open>
  The JSON library, and two items of package \<open>domain\<close> that the handler uses and
  that are not among the sources: the constant \<open>EventTypeUserCreated\<close> and the
  bytes returned by \<open>GetDefaultAvatar()\<close>.
\<close>

record codec =
  unmarshal_DomainEvent :: "bytes \<Rightarrow> error + DomainEvent"
  marshal_Data :: "(string \<rightharpoonup> json) \<Rightarrow> error + json_raw"
  unmarshal_UserCreatedEvent :: "json_raw \<Rightarrow> error + UserCreatedEvent"
  EventTypeUserCreated :: EventType
  GetDefaultAvatar :: bytes

subsection \<open>The handler of user-created events (second file of internal/adapters/logger/logger.go)\<close>

record AssetsHandler =
  assetsService :: AssetsService_UploadAsset
  eventPublisher :: "string \<Rightarrow> string \<Rightarrow> world \<Rightarrow> error option \<times> world"

definition avatar_dto :: "string \<Rightarrow> bytes \<Rightarrow> CreateAssetDto" where
  "avatar_dto userID fileData =
     \<lparr> URL_dto = [],
       PublicURL_dto = None,
       Filename_dto = ''avatar.png'',
       FileSize_dto = int (length fileData),
       Metadata_dto = ''{\"description\":\"Welcome avatar for new user\"}'',
       Secure_dto = False,
       FileHash_dto = [],
       StorageKey_dto = None,
       StorageProvider_dto = None,
       ResourceID_dto = None,
       ResourceType_dto = Some ''users'',
       ContentType_dto = ''image/png'',
       UserID_dto = Some userID,
       AccessLevel_dto = ''public'',
       AllowedRoles_dto = [],
       IsEncrypted_dto = False,
       EncryptionKey_dto = None,
       Tags_dto = [] \<rparr>"

definition handleUserCreated ::
  "codec \<Rightarrow> AssetsHandler \<Rightarrow> DomainEvent \<Rightarrow> world \<Rightarrow> error option outcome \<times> world" where
  "handleUserCreated cd h event w =
     (let w0 = logf Info ''Processing user created event'' w in
      case marshal_Data cd (Data event) of
        Inl err \<Rightarrow> (Returns (Some err), logf Error ''Failed to marshal event data'' w0)
      | Inr data \<Rightarrow>
          (case unmarshal_UserCreatedEvent cd data of
             Inl err \<Rightarrow> (Returns (Some err), logf Error ''Failed to unmarshal event data'' w0)
           | Inr userCreatedEvent \<Rightarrow>
               (if UserID_uc userCreatedEvent = []
                then (Returns None, logf Error ''User created event missing UserID'' w0)
                else (let fileData = GetDefaultAvatar cd;
                          createDto = avatar_dto (UserID_uc userCreatedEvent) fileData
                      in case assetsService h createDto fileData
                                (logf Info ''User created event processed successfully'' w0) of
                           (Panics p, w1) \<Rightarrow> (Panics p, w1)
                         | (Returns (Inl err), w1) \<Rightarrow>
                             (Returns (Some (StatusErrorf Internal ''failed to upload asset'' (Some err))),
                              logf Error ''Failed to upload asset'' w1)
                         | (Returns (Inr asset), w1) \<Rightarrow>
                             (case eventPublisher h (UserID_uc userCreatedEvent) (URL asset) w1 of
                                (Some err, w2) \<Rightarrow>
                                  (Returns (Some (StatusErrorf Internal
                                      ''failed to publish avatar updated event'' (Some err))),
                                   logf Error ''Failed to publish avatar updated event'' w2)
                              | (None, w2) \<Rightarrow>
                                  (Returns None,
                                   logf Info ''Welcome avatar asset created successfully'' w2))))))"

definition Handle ::
  "codec \<Rightarrow> AssetsHandler \<Rightarrow> DomainEvent \<Rightarrow> world \<Rightarrow> error option outcome \<times> world" where
  "Handle cd h event w =
     (let w0 = logf Info ''Handling events'' w in
      if Type_ev event = EventTypeUserCreated cd
      then (case handleUserCreated cd h event w0 of
              (Panics p, w1) \<Rightarrow> (Panics p, w1)
            | (Returns (Some err), w1) \<Rightarrow>
                (Returns (Some err), logf Error ''Failed to handle user created event'' w1)
            | (Returns None, w1) \<Rightarrow>
                (Returns None, logf Info ''User created event handled successfully'' w1))
      else (Returns None, logf Debug ''Unhandled activity log event type'' w0))"

subsection \<open>The dispatcher (internal/adapters/kafka/event\_consumer.go)\<close>

record Message =
  Topic :: string
  Partition :: int
  Offset :: int
  Value :: bytes

text \<open>
  Modelled from the spec: the message reader (\<open>kafka.Reader\<close>, a library type whose
  code is not among the sources). Following sections 4.2 and 7 of the specification, a
  fetch delivers the first message at or after the reader's un-advanced offset, and
  only a successful commit of a message advances that offset past it. A fetch with
  nothing left to deliver blocks until the context is cancelled. Transient fetch errors
  and commit failures are scripted in the reader; \<open>commit_calls\<close> records every call
  of \<open>CommitMessages\<close>.
\<close>

record Reader =
  messages :: "Message list"
  position :: int
  fetch_errors :: "error list"
  commit_fault :: "Message \<Rightarrow> error option"
  commit_calls :: "Message list"

datatype fetched = Fetched Message | Canceled | FetchError error

definition FetchMessage :: "Reader \<Rightarrow> fetched \<times> Reader" where
  "FetchMessage r =
     (case fetch_errors r of
        err # rest \<Rightarrow> (FetchError err, r\<lparr>fetch_errors := rest\<rparr>)
      | [] \<Rightarrow>
          (case find (\<lambda>m. position r \<le> Offset m) (messages r) of
             Some m \<Rightarrow> (Fetched m, r)
           | None \<Rightarrow> (Canceled, r)))"

definition CommitMessages :: "Message \<Rightarrow> Reader \<Rightarrow> error option \<times> Reader" where
  "CommitMessages m r =
     (let r1 = r\<lparr>commit_calls := commit_calls r @ [m]\<rparr> in
      case commit_fault r m of
        Some err \<Rightarrow> (Some err, r1)
      | None \<Rightarrow> (None, r1\<lparr>position := Offset m + 1\<rparr>))"

type_synonym EventHandler = "DomainEvent \<Rightarrow> world \<Rightarrow> error option outcome \<times> world"

record EventConsumer =
  handlers :: "EventType \<rightharpoonup> EventHandler"

definition RegisterHandler :: "EventType \<Rightarrow> EventHandler \<Rightarrow> EventConsumer \<Rightarrow> EventConsumer" where
  "RegisterHandler eventType handler c = c\<lparr>handlers := (handlers c)(eventType \<mapsto> handler)\<rparr>"

definition RegisterHandlers :: "codec \<Rightarrow> AssetsHandler \<Rightarrow> EventConsumer \<Rightarrow> EventConsumer" where
  "RegisterHandlers cd h consumer = RegisterHandler (EventTypeUserCreated cd) (Handle cd h) consumer"

definition handleMessage ::
  "codec \<Rightarrow> EventConsumer \<Rightarrow> Message \<Rightarrow> world \<Rightarrow> error option outcome \<times> world" where
  "handleMessage cd c message w =
     (let w0 = logf Info ''Received message'' w in
      case unmarshal_DomainEvent cd (Value message) of
        Inl err \<Rightarrow>
          (Returns (Some (Wrapf ''failed to unmarshal domain event'' err)),
           logf Error ''Failed to unmarshal domain event'' w0)
      | Inr domainEvent \<Rightarrow>
          (let w1 = logf Info ''Parsed domain event'' w0 in
           case handlers c (Type_ev domainEvent) of
             None \<Rightarrow> (Returns None, logf Info ''No handler found for event type'' w1)
           | Some handler \<Rightarrow>
               (case handler domainEvent (logf Info ''Handling event'' w1) of
                  (Panics p, w2) \<Rightarrow> (Panics p, w2)
                | (Returns (Some err), w2) \<Rightarrow>
                    (Returns (Some (Wrapf ''handler failed for event'' err)), w2)
                | (Returns None, w2) \<Rightarrow>
                    (Returns None, logf Info ''Event handled successfully'' w2))))"

text \<open>
  The state of one fetch loop: its reader, the rest of the system, and whether the
  consumer's context has been cancelled.
\<close>

record cstate =
  reader :: Reader
  sys :: world
  ctx_done :: bool

text \<open>Lines 134 to 148 of \<open>consumeMessages\<close>: what is done with a fetched message.\<close>

definition consume_fetched ::
  "codec \<Rightarrow> EventConsumer \<Rightarrow> Message \<Rightarrow> cstate \<Rightarrow> unit outcome \<times> cstate" where
  "consume_fetched cd c message s =
     (case handleMessage cd c message (sys s) of
        (Panics p, w1) \<Rightarrow> (Panics p, s\<lparr>sys := w1\<rparr>)
      | (Returns (Some err), w1) \<Rightarrow>
          (Returns (), s\<lparr>sys := logf Error ''Failed to handle message'' w1\<rparr>)
      | (Returns None, w1) \<Rightarrow>
          (case CommitMessages message (reader s) of
             (Some err, r1) \<Rightarrow>
               (Returns (), s\<lparr>reader := r1, sys := logf Error ''Failed to commit message'' w1\<rparr>)
           | (None, r1) \<Rightarrow> (Returns (), s\<lparr>reader := r1, sys := w1\<rparr>)))"

datatype loop_end = Stopped | Crashed string

text \<open>
  One pass through the body of the \<open>for\<close> loop of \<open>consumeMessages\<close> (lines 116 to
  149): \<open>Some\<close> when the goroutine ends there, by \<open>return\<close> or by a panic of the
  handler, \<open>None\<close> when the loop goes on to its next pass.
\<close>

definition consume_iteration ::
  "codec \<Rightarrow> EventConsumer \<Rightarrow> cstate \<Rightarrow> loop_end option \<times> cstate" where
  "consume_iteration cd c s =
     (if ctx_done s
      then (Some Stopped, s\<lparr>sys := logf Info ''Stopping message consumption'' (sys s)\<rparr>)
      else (case FetchMessage (reader s) of
              (Canceled, r1) \<Rightarrow> (Some Stopped, s\<lparr>reader := r1\<rparr>)
            | (FetchError err, r1) \<Rightarrow>
                (None, s\<lparr>reader := r1, sys := logf Error ''Failed to fetch message'' (sys s)\<rparr>)
            | (Fetched message, r1) \<Rightarrow>
                (case consume_fetched cd c message (s\<lparr>reader := r1\<rparr>) of
                   (Panics p, s1) \<Rightarrow> (Some (Crashed p), s1)
                 | (Returns u, s1) \<Rightarrow> (None, s1))))"

text \<open>
  The loop itself, with a bound on the number of passes: \<open>None\<close> means that the loop
  is still running after that many.
\<close>

fun consume_loop ::
  "nat \<Rightarrow> codec \<Rightarrow> EventConsumer \<Rightarrow> cstate \<Rightarrow> (loop_end \<times> cstate) option" where
  "consume_loop 0 cd c s = None"
| "consume_loop (Suc n) cd c s =
     (case consume_iteration cd c s of
        (Some ended, s1) \<Rightarrow> Some (ended, s1)
      | (None, s1) \<Rightarrow> consume_loop n cd c s1)"

definition consumeMessages ::
  "nat \<Rightarrow> codec \<Rightarrow> EventConsumer \<Rightarrow> cstate \<Rightarrow> (loop_end \<times> cstate) option" where
  "consumeMessages n cd c s =
     consume_loop n cd c (s\<lparr>sys := logf Info ''Starting message consumption'' (sys s)\<rparr>)"

section \<open>Notions used by the statements\<close>

text \<open>The caller's metadata that \<open>UploadAsset\<close> of the first orchestrator merges in.\<close>

definition custom_metadata :: "env \<Rightarrow> CreateAssetDto \<Rightarrow> json_raw option" where
  "custom_metadata e d =
     (if Metadata_dto d \<noteq> [] \<and> json_is_object e (Metadata_dto d)
      then Some (Metadata_dto d) else None)"


text \<open>A read of the cache under \<open>key\<close> is a hit: the call works and the key is there.\<close>

definition served_hit :: "env \<Rightarrow> world \<Rightarrow> string \<Rightarrow> bool" where
  "served_hit e w key = (fault e (CacheGet key) = None \<and> cache w key \<noteq> None)"

text \<open>The world in which \<open>handleMessage\<close> invokes a handler, after its three log lines.\<close>

definition dispatch_world :: "world \<Rightarrow> world" where
  "dispatch_world w =
     logf Info ''Handling event'' (logf Info ''Parsed domain event'' (logf Info ''Received message'' w))"

text \<open>
  Handling succeeded, in the words of the specification: the body deserializes into an
  envelope, and either no handler is registered for its type or the registered handler
  returns success.
\<close>

definition handled_ok :: "codec \<Rightarrow> EventConsumer \<Rightarrow> Message \<Rightarrow> world \<Rightarrow> bool" where
  "handled_ok cd c m w =
     (case unmarshal_DomainEvent cd (Value m) of
        Inl err \<Rightarrow> False
      | Inr ev \<Rightarrow>
          (case handlers c (Type_ev ev) of
             None \<Rightarrow> True
           | Some handler \<Rightarrow> fst (handler ev (dispatch_world w)) = Returns None))"

section \<open>Concrete inputs\<close>

definition fail_on :: "call list \<Rightarrow> call \<Rightarrow> error option" where
  "fail_on cs c = (if List.member cs c then Some (ErrorsNew ''i/o timeout'') else None)"

definition ex_env :: env where
  "ex_env =
     \<lparr> fault = fail_on [],
       sha256hex = (\<lambda>b. ''2a''),
       now_unix = 7,
       new_uuid = ''u-1'',
       db_uuid = (\<lambda>n. ''a2''),
       db_now = ''t1'',
       UseSSL = False,
       Endpoint = ''minio'',
       bucketName = ''assets'',
       json_is_object = (\<lambda>j. True),
       json_marshal_metadata = (\<lambda>h t k c. Inr ''{}''),
       GetStoreKey = (\<lambda>d. ''k/'' @ Filename_dto d),
       GetMetadata = (\<lambda>d k h. ''{}'') \<rparr>"

definition ex_dto :: CreateAssetDto where
  "ex_dto =
     \<lparr> URL_dto = [],
       PublicURL_dto = None,
       Filename_dto = ''avatar.png'',
       FileSize_dto = 3,
       Metadata_dto = [],
       Secure_dto = False,
       FileHash_dto = [],
       StorageKey_dto = None,
       StorageProvider_dto = None,
       ResourceID_dto = None,
       ResourceType_dto = None,
       ContentType_dto = ''image/png'',
       UserID_dto = Some ''bob'',
       AccessLevel_dto = ''private'',
       AllowedRoles_dto = [],
       IsEncrypted_dto = False,
       EncryptionKey_dto = None,
       Tags_dto = [] \<rparr>"

definition ex_data :: bytes where
  "ex_data = [1, 2, 3]"

text \<open>A live row owned by bob, with its object in the store.\<close>

definition ex_row :: Asset where
  "ex_row =
     \<lparr> ID = ''a1'',
       URL = ''http://minio/assets/docs/7_cv.pdf'',
       PublicURL = ''/assets/a1'',
       Filename = ''cv.pdf'',
       FileSize = 3,
       Metadata = ''{}'',
       Secure = False,
       StorageKey = Some ''docs/7_cv.pdf'',
       StorageProvider = Some ''minio'',
       ResourceID = None,
       ResourceType = Some ''docs'',
       ContentType = ''application/pdf'',
       UserID = Some ''bob'',
       AccessLevel = ''private'',
       AllowedRoles = [],
       IsEncrypted = False,
       EncryptionKey = None,
       LastAccessedAt = None,
       DeletedAt = None,
       Tags = [],
       CreatedAt = ''t0'',
       UpdatedAt = ''t0'',
       Active = True,
       FileHash = ''2a'' \<rparr>"

definition empty_world :: world where
  "empty_world =
     \<lparr> objects = Map.empty, assets = [], cache = Map.empty, published = [],
       calls = [], logs = [] \<rparr>"

definition ex_world :: world where
  "ex_world =
     \<lparr> objects = [''docs/7_cv.pdf'' \<mapsto> (ex_data, ''application/pdf'')],
       assets = [ex_row], cache = Map.empty, published = [],
       calls = [], logs = [] \<rparr>"

definition ex_request :: UploadAssetRequest where
  "ex_request =
     \<lparr> Filename_req = [],
       ContentType_req = ''image/png'',
       UserId_req = ''bob'',
       FileData_req = ex_data,
       ResourceId_req = [],
       ResouceType_req = [],
       Metadata_req = None \<rparr>"

definition ex_event :: DomainEvent where
  "ex_event =
     \<lparr> ID_ev = ''e1'',
       Type_ev = ''user.created'',
       AggregateID = [],
       Version = 1,
       Data = [''user_id'' \<mapsto> JString []],
       Metadata_ev = \<lparr> Source = ''users'', CorrelationID = ''c1'', CausationID = [], UserID_meta = [] \<rparr>,
       Timestamp = ''t0'' \<rparr>"

definition ex_user :: "string \<Rightarrow> UserCreatedEvent" where
  "ex_user uid =
     \<lparr> UserID_uc = uid, Name = ''Bob'', Email = None, Phone = None, Locale = None,
       Country = None, DeviceID = None, NotificationToken = None, UserType = ''customer'' \<rparr>"

text \<open>
  A codec that reads the message body \<open>[1]\<close> as \<open>ex_event\<close> and nothing else, and
  decodes the data of an event to the user whose identifier is the \<open>user_id\<close> string.
\<close>

definition ex_codec :: codec where
  "ex_codec =
     \<lparr> unmarshal_DomainEvent =
         (\<lambda>b. if b = [1] then Inr ex_event else Inl (ErrorsNew ''unexpected end of JSON input'')),
       marshal_Data = (\<lambda>d. case d ''user_id'' of Some (JString s) \<Rightarrow> Inr s | _ \<Rightarrow> Inr []),
       unmarshal_UserCreatedEvent = (\<lambda>j. Inr (ex_user j)),
       EventTypeUserCreated = ''user.created'',
       GetDefaultAvatar = ex_data \<rparr>"

definition ex_handler :: AssetsHandler where
  "ex_handler =
     \<lparr> assetsService = (\<lambda>d b w. case UploadAsset_v2 ex_env d b w of (r, w1) \<Rightarrow> (Returns r, w1)),
       eventPublisher = publish_AvatarUpdated ex_env \<rparr>"

definition ex_message :: "int \<Rightarrow> bytes \<Rightarrow> Message" where
  "ex_message off body = \<lparr> Topic = ''users.events'', Partition = 0, Offset = off, Value = body \<rparr>"

definition ex_reader :: "Message list \<Rightarrow> Reader" where
  "ex_reader ms =
     \<lparr> messages = ms, position = 0, fetch_errors = [], commit_fault = (\<lambda>m. None),
       commit_calls = [] \<rparr>"

definition ex_cstate :: "Message list \<Rightarrow> cstate" where
  "ex_cstate ms = \<lparr> reader = ex_reader ms, sys = empty_world, ctx_done = False \<rparr>"

text \<open>The same request, attached to the resource \<open>users/u1\<close>.\<close>

definition ex_users_dto :: CreateAssetDto where
  "ex_users_dto = ex_dto\<lparr>ResourceType_dto := Some ''users'', ResourceID_dto := Some ''u1''\<rparr>"

text \<open>A request with an empty filename and an empty content type.\<close>

definition ex_blank_dto :: CreateAssetDto where
  "ex_blank_dto = ex_dto\<lparr>Filename_dto := [], ContentType_dto := []\<rparr>"

text \<open>The log line that the first orchestrator writes for metadata that does not parse.\<close>

definition metadata_warning :: "env \<Rightarrow> CreateAssetDto \<Rightarrow> world \<Rightarrow> world" where
  "metadata_warning e d w =
     (if Metadata_dto d \<noteq> [] \<and> \<not> json_is_object e (Metadata_dto d)
      then logf Warn ''Failed to unmarshal custom metadata, ignoring'' w else w)"


text \<open>
  The state in which the loop starts its next pass after \<open>handleMessage\<close> has returned
  an error for \<open>m\<close>: the reader as it was, one more log line.
\<close>

definition retry_state :: "codec \<Rightarrow> EventConsumer \<Rightarrow> Message \<Rightarrow> cstate \<Rightarrow> cstate" where
  "retry_state cd c m s =
     s\<lparr>sys := logf Error ''Failed to handle message'' (snd (handleMessage cd c m (sys s)))\<rparr>"

text \<open>
  A handler that fails the first time it is given an event, leaving a mark in the
  world, and succeeds once the mark is there.
\<close>

definition ex_flaky :: EventHandler where
  "ex_flaky ev w =
     (if published w = []
      then (Returns (Some (ErrorsNew ''busy'')), w\<lparr>published := [(''seen'', ID_ev ev)]\<rparr>)
      else (Returns None, w))"

definition ex_flaky_consumer :: EventConsumer where
  "ex_flaky_consumer = \<lparr>handlers = [''user.created'' \<mapsto> ex_flaky]\<rparr>"

text \<open>A gRPC request with a filename, a user and bytes, and an empty content type.\<close>

definition ex_request_no_type :: UploadAssetRequest where
  "ex_request_no_type = ex_request\<lparr>Filename_req := ''avatar.png'', ContentType_req := []\<rparr>"

text \<open>The blank request, attached to the resource \<open>users/u1\<close>.\<close>

definition ex_blank_users_dto :: CreateAssetDto where
  "ex_blank_users_dto = ex_users_dto\<lparr>Filename_dto := [], ContentType_dto := []\<rparr>"

text \<open>The orchestrators behind the interface \<open>ports.AssetsService\<close>.\<close>

definition service_v2 :: "env \<Rightarrow> AssetsService_UploadAsset" where
  "service_v2 e d b w = (case UploadAsset_v2 e d b w of (r, w1) \<Rightarrow> (Returns r, w1))"


section \<open>Unfolding the ports\<close>

lemmas port_defs = UploadFile_def DeleteFile_def repo_CreateAsset_def repo_GetAssetByID_def
  repo_DeleteAsset_def cache_Set_def cache_Get_def cache_Delete_def logf_def called_def
  rollback_upload_def cache_asset_def uncache_asset_def Let_def

lemmas ex_defs = ex_env_def ex_dto_def ex_data_def ex_row_def empty_world_def ex_world_def
  fail_on_def

lemma itoa_7: "itoa 7 = ''7''"
  by (simp add: itoa_def string_of_nat.simps digit_char_def)

lemma UploadAsset_metadata_eq:
  "UploadAsset_metadata e d h k w =
     (json_marshal_metadata e h (now_unix e) k (custom_metadata e d), metadata_warning e d w)"
  by (simp add: UploadAsset_metadata_def custom_metadata_def metadata_warning_def)

lemma metadata_warning_fields [simp]:
  "calls (metadata_warning e d w) = calls w"
  "objects (metadata_warning e d w) = objects w"
  "assets (metadata_warning e d w) = assets w"
  "cache (metadata_warning e d w) = cache w"
  by (simp_all add: metadata_warning_def logf_def)


section \<open>Upload: compensation after a failed save\<close>







section \<open>Delete: ownership and ordering\<close>

text \<open>
  C4. When the repository holds a live row for the identifier whose owner is set,
  non-empty and different from the requesting user, \<open>DeleteAsset\<close> of either
  orchestrator returns the Unauthorized domain error. The only call it has made is the
  read of the row: the store, the table and the cache are untouched, and the world
  differs from the initial one by that read and two log lines.
\<close>

theorem DeleteAsset_ownership:
  assumes "fault e (RepoGetAssetByID assetID) = None"
    and "find (live_row assetID) (assets w) = Some a"
    and "UserID a = Some owner" and "owner \<noteq> []" and "owner \<noteq> userA"
  shows "DeleteAsset_v1 e assetID userA w =
           (Some (NewDomainError UnauthorizedError ''Asset does not belong to user'' None),
            w\<lparr>calls := calls w @ [RepoGetAssetByID assetID],
              logs := logs w @ [(Info, ''Deleting asset''), (Warn, ''Unauthorized delete attempt'')]\<rparr>)
       \<and> DeleteAsset_v2 e assetID userA w =
           (Returns (Some (NewDomainError UnauthorizedError ''Asset does not belong to user'' None)),
            w\<lparr>calls := calls w @ [RepoGetAssetByID assetID],
              logs := logs w @ [(Info, ''Deleting asset''), (Warn, ''Unauthorized delete attempt'')]\<rparr>)"
  using assms
  by (simp add: DeleteAsset_v1_def DeleteAsset_v2_def repo_GetAssetByID_def logf_def called_def
      not_owner_def)

text \<open>Alice asks to delete bob's asset \<open>a1\<close>.\<close>

theorem DeleteAsset_ownership_witness:
  "DeleteAsset_v1 ex_env ''a1'' ''alice'' ex_world =
     (Some (DomainError ''unauthorized_error'' ''Asset does not belong to user''
              (ErrorsNew ''Asset not found'')),
      ex_world\<lparr>calls := [RepoGetAssetByID ''a1''],
        logs := [(Info, ''Deleting asset''), (Warn, ''Unauthorized delete attempt'')]\<rparr>)
   \<and> DeleteAsset_v2 ex_env ''a1'' ''alice'' ex_world =
     (Returns (Some (DomainError ''unauthorized_error'' ''Asset does not belong to user''
              (ErrorsNew ''Asset not found''))),
      ex_world\<lparr>calls := [RepoGetAssetByID ''a1''],
        logs := [(Info, ''Deleting asset''), (Warn, ''Unauthorized delete attempt'')]\<rparr>)"
  using DeleteAsset_ownership [of ex_env "''a1''" ex_world ex_row "''bob''" "''alice''"]
  by (simp add: ex_defs live_row_def NewDomainError_def UnauthorizedError_def)

text \<open>
  The second orchestrator deletes in the order the specification gives. Once the
  ownership check is passed, the object-store delete is the next call; when it fails
  the call returns the delete error and the table and the cache are as before, so the
  row is still live.
\<close>

lemma DeleteAsset_v2_storage_delete_fails:
  assumes "fault e (RepoGetAssetByID assetID) = None"
    and "find (live_row assetID) (assets w) = Some a"
    and "\<not> not_owner a userID"
    and "StorageKey a = Some key"
    and "fault e (StoreDeleteFile key) = Some err"
  shows "fst (DeleteAsset_v2 e assetID userID w) =
           Returns (Some (NewDomainError UnableToDeleteError ''Failed to delete file from storage''
              (Some (NewDomainError UnableToDeleteError ''failed to delete file'' (Some err)))))"
    and "calls (snd (DeleteAsset_v2 e assetID userID w)) =
           calls w @ [RepoGetAssetByID assetID, StoreDeleteFile key]"
    and "assets (snd (DeleteAsset_v2 e assetID userID w)) = assets w"
    and "cache (snd (DeleteAsset_v2 e assetID userID w)) = cache w"
    and "objects (snd (DeleteAsset_v2 e assetID userID w)) = objects w"
  using assms
  by (simp_all add: DeleteAsset_v2_def port_defs)

lemma DeleteAsset_v2_order:
  assumes "fault e (RepoGetAssetByID assetID) = None"
    and "find (live_row assetID) (assets w) = Some a"
    and "\<not> not_owner a userID"
    and "StorageKey a = Some key"
    and "fault e (StoreDeleteFile key) = None"
  shows "calls (snd (DeleteAsset_v2 e assetID userID w)) =
           calls w @ [RepoGetAssetByID assetID, StoreDeleteFile key,
                      CacheDelete (''assets:'' @ assetID), RepoDeleteAsset assetID]"
  using assms
  by (auto simp add: DeleteAsset_v2_def port_defs split: option.splits)

text \<open>
  C2, on \<open>internal/core/services/assets_service.go\<close>. The owner deletes the asset
  \<open>a1\<close>: the call succeeds, the row is soft-deleted, and the object store was never
  asked to delete anything, so the object is still there.
\<close>

theorem DeleteAsset_v1_skips_storage:
  "fst (DeleteAsset_v1 ex_env ''a1'' ''bob'' ex_world) = None
   \<and> calls (snd (DeleteAsset_v1 ex_env ''a1'' ''bob'' ex_world)) =
       [RepoGetAssetByID ''a1'', RepoDeleteAsset ''a1'']
   \<and> find (live_row ''a1'') (assets (snd (DeleteAsset_v1 ex_env ''a1'' ''bob'' ex_world))) = None
   \<and> objects (snd (DeleteAsset_v1 ex_env ''a1'' ''bob'' ex_world)) ''docs/7_cv.pdf'' =
       Some (ex_data, ''application/pdf'')"
  by (simp add: DeleteAsset_v1_def port_defs ex_defs live_row_def not_owner_def soft_delete_def)

section \<open>Fetch: cache-aside read\<close>

lemma GetAssetByID_v2_hit:
  assumes "fault e (CacheGet (''assets:'' @ assetID)) = None"
    and "cache w (''assets:'' @ assetID) = Some a"
  shows "GetAssetByID_v2 e assetID w =
           (Inr a, w\<lparr>calls := calls w @ [CacheGet (''assets:'' @ assetID)],
                     logs := logs w @ [(Info, ''Getting asset by ID'')]\<rparr>)"
  using assms by (simp add: GetAssetByID_v2_def port_defs)

lemma GetAssetByID_v2_miss_found:
  assumes "\<not> served_hit e w (''assets:'' @ assetID)"
    and "fault e (RepoGetAssetByID assetID) = None"
    and "find (live_row assetID) (assets w) = Some a"
  shows "fst (GetAssetByID_v2 e assetID w) = Inr a"
    and "calls (snd (GetAssetByID_v2 e assetID w)) =
           calls w @ [CacheGet (''assets:'' @ assetID), RepoGetAssetByID assetID,
                      CacheSet (''assets:'' @ assetID)]"
    and "cache (snd (GetAssetByID_v2 e assetID w)) (''assets:'' @ assetID) =
           (if fault e (CacheSet (''assets:'' @ assetID)) = None then Some a
            else cache w (''assets:'' @ assetID))"
  using assms
  by (auto simp add: GetAssetByID_v2_def port_defs served_hit_def split: option.splits)

lemma GetAssetByID_v2_miss_not_found:
  assumes "\<not> served_hit e w (''assets:'' @ assetID)"
    and "fault e (RepoGetAssetByID assetID) = None"
    and "find (live_row assetID) (assets w) = None"
  shows "fst (GetAssetByID_v2 e assetID w) =
           Inl (NewDomainError ResourceNotFoundError ''Asset not found''
                  (Some (ErrorsNew ''asset not found'')))"
  using assms
  by (auto simp add: GetAssetByID_v2_def port_defs served_hit_def split: option.splits)

text \<open>
  C7, on \<open>internal/core/services/assets_service.go\<close>. Reading \<open>a1\<close> with an empty
  cache returns the row of the repository, and the cache is not written: the calls
  are the cache read and the repository read, and the cache is still empty.
\<close>

theorem GetAssetByID_v1_no_write_back:
  "fst (GetAssetByID_v1 ex_env ''a1'' ex_world) = Inr ex_row
   \<and> calls (snd (GetAssetByID_v1 ex_env ''a1'' ex_world)) =
       [CacheGet ''a1'', RepoGetAssetByID ''a1'']
   \<and> cache (snd (GetAssetByID_v1 ex_env ''a1'' ex_world)) = Map.empty"
  by (simp add: GetAssetByID_v1_def port_defs ex_defs live_row_def)

section \<open>Cache failures\<close>










section \<open>Upload: validation and the storage key\<close>

text \<open>
  Neither orchestrator looks at the filename, the content type or the bytes before it
  acts: the first call of \<open>UploadAsset\<close> is the write to the object store.
\<close>

lemma UploadAsset_v2_first_call:
  "take (Suc (length (calls w))) (calls (snd (UploadAsset_v2 e d b w))) =
     calls w @ [StoreUploadFile (GetStoreKey e d)]"
  by (simp add: UploadAsset_v2_def port_defs split: option.splits)

lemma UploadAsset_v1_first_call:
  assumes "UploadAsset_fileKey d (uniqueSlug_of e d) = Returns k"
  shows "take (Suc (length (calls w))) (calls (snd (UploadAsset_v1 e d b w))) =
           calls w @ [StoreUploadFile k]"
  using assms
  by (simp add: UploadAsset_v1_def port_defs UploadAsset_metadata_eq
      split: option.splits sum.splits)

text \<open>
  The only guard is in the gRPC handler: a request with an empty filename, an empty
  user identifier or zero-length file data is rejected with \<open>InvalidArgument\<close> before
  the orchestrator is called. The content type is not looked at.
\<close>

lemma Server_UploadAsset_guard:
  assumes "Filename_req req = [] \<or> UserId_req req = [] \<or> FileData_req req = []"
  shows "Server_UploadAsset svc req w =
           (Returns (Inl (StatusErrorf InvalidArgument
                            ''filename, user_id, and file_data are required'' None)),
            w\<lparr>logs := logs w @ [(Info, ''gRPC UploadAsset called'')]\<rparr>)"
  using assms by (auto simp add: Server_UploadAsset_def logf_def)

text \<open>
  C3, on both orchestrators. A gRPC request with a filename, a user and three bytes but
  an empty content type passes the handler and reaches \<open>UploadAsset\<close>, which returns
  the saved asset instead of an \<open>InvalidInput\<close> error: the object is in the store
  with an empty content type, the row is in the table and the cache is written. Called
  directly, \<open>UploadAsset\<close> does the same with an empty filename and with no bytes,
  in the second orchestrator and in the first one.
\<close>

theorem UploadAsset_no_validation:
  "fst (Server_UploadAsset (service_v2 ex_env) ex_request_no_type empty_world) =
     Returns (Inr (hd (assets (snd (Server_UploadAsset (service_v2 ex_env)
                                      ex_request_no_type empty_world)))))
   \<and> ContentType (hd (assets (snd (Server_UploadAsset (service_v2 ex_env)
                                      ex_request_no_type empty_world)))) = []
   \<and> calls (snd (Server_UploadAsset (service_v2 ex_env) ex_request_no_type empty_world)) =
       [StoreUploadFile ''k/avatar.png'', RepoCreateAsset, CacheSet ''assets:a2'']
   \<and> objects (snd (Server_UploadAsset (service_v2 ex_env) ex_request_no_type empty_world))
        ''k/avatar.png'' = Some (ex_data, [])
   \<and> \<not> isl (fst (UploadAsset_v2 ex_env ex_blank_dto ex_data empty_world))
   \<and> calls (snd (UploadAsset_v2 ex_env ex_blank_dto ex_data empty_world)) =
       [StoreUploadFile ''k/'', RepoCreateAsset, CacheSet ''assets:a2'']
   \<and> \<not> isl (fst (UploadAsset_v2 ex_env ex_dto [] empty_world))
   \<and> calls (snd (UploadAsset_v2 ex_env ex_dto [] empty_world)) =
       [StoreUploadFile ''k/avatar.png'', RepoCreateAsset, CacheSet ''assets:a2'']
   \<and> objects (snd (UploadAsset_v2 ex_env ex_dto [] empty_world)) ''k/avatar.png'' =
       Some ([], ''image/png'')
   \<and> calls (snd (UploadAsset_v1 ex_env ex_blank_users_dto [] empty_world)) =
       [StoreUploadFile ''users/u1/7_'', RepoCreateAsset, CacheSet ''asset:u-1'']
   \<and> objects (snd (UploadAsset_v1 ex_env ex_blank_users_dto [] empty_world)) ''users/u1/7_'' =
       Some ([], [])
   \<and> length (assets (snd (UploadAsset_v1 ex_env ex_blank_users_dto [] empty_world))) = 1"
  by (simp add: Server_UploadAsset_def service_v2_def createDto_of_request_def
      ex_request_no_type_def ex_request_def UploadAsset_v2_def UploadAsset_v1_def port_defs
      ex_defs ex_blank_dto_def ex_blank_users_dto_def ex_users_dto_def inserted_row_def
      assetDto_v2_def UploadAsset_fileKey_def uniqueSlug_of_def itoa_7 nonempty_ptr_def
      UploadAsset_metadata_def)

text \<open>
  The key derivation, branch by branch. With both parts of the association the key is
  type, identifier and slug; with a type and an empty, non-nil identifier it is type
  and slug. Without a type the key is empty, and with a type and a nil identifier the
  derivation panics. The slug is the time stamp, an underscore and the filename.
\<close>

lemma UploadAsset_fileKey_both:
  assumes "rt \<noteq> []" and "rid \<noteq> []"
    and "ResourceType_dto d = Some rt" and "ResourceID_dto d = Some rid"
  shows "UploadAsset_fileKey d slug = Returns (rt @ ''/'' @ rid @ ''/'' @ slug)"
  using assms by (simp add: UploadAsset_fileKey_def nonempty_ptr_def)

lemma UploadAsset_fileKey_type_only:
  assumes "rt \<noteq> []" and "ResourceType_dto d = Some rt" and "ResourceID_dto d = Some []"
  shows "UploadAsset_fileKey d slug = Returns (rt @ ''/'' @ slug)"
  using assms by (simp add: UploadAsset_fileKey_def nonempty_ptr_def)

lemma UploadAsset_fileKey_no_type:
  assumes "ResourceType_dto d = None"
  shows "UploadAsset_fileKey d slug = Returns []"
  using assms by (simp add: UploadAsset_fileKey_def nonempty_ptr_def)

lemma UploadAsset_fileKey_nil_id:
  assumes "rt \<noteq> []" and "ResourceType_dto d = Some rt" and "ResourceID_dto d = None"
  shows "UploadAsset_fileKey d slug = Panics ''invalid memory address or nil pointer dereference''"
  using assms by (simp add: UploadAsset_fileKey_def nonempty_ptr_def)

lemma uniqueSlug_of_filename:
  "uniqueSlug_of e d = itoa (now_unix e) @ ''_'' @ Filename_dto d"
  by (simp add: uniqueSlug_of_def)

text \<open>
  C6, on \<open>internal/core/services/assets_service.go\<close>. A request for \<open>avatar.png\<close>
  with no resource association gets the empty storage key, not the slug
  \<open>7_avatar.png\<close>, and the object is written under the empty key.
\<close>

theorem UploadAsset_v1_empty_key:
  "uniqueSlug_of ex_env ex_dto = ''7_avatar.png''
   \<and> UploadAsset_fileKey ex_dto (uniqueSlug_of ex_env ex_dto) = Returns []
   \<and> calls (snd (UploadAsset_v1 ex_env ex_dto ex_data empty_world)) =
       [StoreUploadFile [], RepoCreateAsset, CacheSet ''asset:u-1'']
   \<and> objects (snd (UploadAsset_v1 ex_env ex_dto ex_data empty_world)) [] =
       Some (ex_data, ''image/png'')"
  by (simp add: UploadAsset_v1_def port_defs ex_defs uniqueSlug_of_def itoa_7
      UploadAsset_fileKey_def nonempty_ptr_def UploadAsset_metadata_def)

text \<open>
  C8, on \<open>internal/core/services/assets_service.go\<close>. The request that the
  user-created handler builds has the resource type \<open>users\<close> and no resource
  identifier: the key derivation dereferences the nil identifier and \<open>UploadAsset\<close>
  panics before any backend is called.
\<close>

theorem UploadAsset_v1_nil_resource_id_panics:
  "ResourceType_dto (avatar_dto ''bob'' ex_data) = Some ''users''
   \<and> ResourceID_dto (avatar_dto ''bob'' ex_data) = None
   \<and> UploadAsset_v1 ex_env (avatar_dto ''bob'' ex_data) ex_data empty_world =
       (Panics ''invalid memory address or nil pointer dereference'',
        empty_world\<lparr>logs := [(Info, ''Uploading asset'')]\<rparr>)"
  by (simp add: UploadAsset_v1_def avatar_dto_def UploadAsset_fileKey_def nonempty_ptr_def
      logf_def empty_world_def)

section \<open>The dispatcher\<close>

lemma handleMessage_ok_iff:
  "(fst (handleMessage cd c m w) = Returns None) = handled_ok cd c m w"
  by (auto simp add: handleMessage_def handled_ok_def dispatch_world_def Let_def
      split: sum.splits option.splits prod.splits outcome.splits)

lemma consume_fetched_reader:
  "reader (snd (consume_fetched cd c m s)) =
     (if handled_ok cd c m (sys s) then snd (CommitMessages m (reader s)) else reader s)"
  unfolding handleMessage_ok_iff [symmetric]
  by (auto simp add: consume_fetched_def split: prod.splits outcome.splits option.splits)

lemma consume_fetched_failed:
  assumes "fst (handleMessage cd c m (sys s)) = Returns (Some err)"
  shows "consume_fetched cd c m s =
           (Returns (), s\<lparr>sys := logf Error ''Failed to handle message''
                                  (snd (handleMessage cd c m (sys s)))\<rparr>)"
  using assms
  by (auto simp add: consume_fetched_def split: prod.splits outcome.splits option.splits)

lemma CommitMessages_calls:
  "commit_calls (snd (CommitMessages m r)) = commit_calls r @ [m]"
  by (simp add: CommitMessages_def Let_def split: option.splits)

lemma CommitMessages_position:
  "commit_fault r m = None \<Longrightarrow> position (snd (CommitMessages m r)) = Offset m + 1"
  by (simp add: CommitMessages_def Let_def)

lemma FetchMessage_after_position:
  assumes "Offset m < position r"
  shows "fst (FetchMessage r) \<noteq> Fetched m"
proof
  assume f: "fst (FetchMessage r) = Fetched m"
  then have "find (\<lambda>x. position r \<le> Offset x) (messages r) = Some m"
    by (auto simp add: FetchMessage_def split: list.splits option.splits)
  then have "position r \<le> Offset m"
    by (auto simp add: find_Some_iff)
  with assms show False by simp
qed

lemma consume_fetched_ok:
  assumes "handled_ok cd c m (sys s)" and "commit_fault (reader s) m = None"
  shows "consume_fetched cd c m s =
           (Returns (), s\<lparr>reader := snd (CommitMessages m (reader s)),
                           sys := snd (handleMessage cd c m (sys s))\<rparr>)"
  using assms unfolding handleMessage_ok_iff [symmetric]
  by (auto simp add: consume_fetched_def CommitMessages_def Let_def split: prod.splits)

lemma consume_iteration_fetched:
  assumes "\<not> ctx_done s" and "FetchMessage (reader s) = (Fetched m, reader s)"
  shows "consume_iteration cd c s =
           (case consume_fetched cd c m s of
              (Panics p, s1) \<Rightarrow> (Some (Crashed p), s1)
            | (Returns u, s1) \<Rightarrow> (None, s1))"
proof -
  have "s\<lparr>reader := reader s\<rparr> = s" by simp
  with assms show ?thesis by (simp add: consume_iteration_def)
qed

lemma consume_iteration_failed:
  assumes "\<not> ctx_done s" and "FetchMessage (reader s) = (Fetched m, reader s)"
    and "fst (handleMessage cd c m (sys s)) = Returns (Some err)"
  shows "consume_iteration cd c s = (None, retry_state cd c m s)"
  by (simp add: consume_iteration_fetched [OF assms(1,2)] consume_fetched_failed [OF assms(3)]
      retry_state_def)

lemma retry_state_fields [simp]:
  "reader (retry_state cd c m s) = reader s"
  "ctx_done (retry_state cd c m s) = ctx_done s"
  by (simp_all add: retry_state_def)

lemma FetchMessage_Canceled:
  assumes "fst (FetchMessage r) = Canceled"
  shows "FetchMessage r = (Canceled, r)"
  using assms by (auto simp add: FetchMessage_def split: list.splits option.splits)

lemma consume_iteration_drained:
  assumes "\<not> ctx_done s" and "fst (FetchMessage (reader s)) = Canceled"
  shows "consume_iteration cd c s = (Some Stopped, s)"
  using assms(1) FetchMessage_Canceled [OF assms(2)]
  by (simp add: consume_iteration_def)

lemma consume_loop_retry:
  assumes run: "\<not> ctx_done s"
    and fetch: "FetchMessage (reader s) = (Fetched m, reader s)"
    and failed: "fst (handleMessage cd c m (sys s)) = Returns (Some err)"
    and ok: "handled_ok cd c m (sys (retry_state cd c m s))"
    and commit: "commit_fault (reader s) m = None"
    and last: "fst (FetchMessage (snd (CommitMessages m (reader s)))) = Canceled"
  shows "consume_loop (Suc (Suc (Suc n))) cd c s =
           Some (Stopped,
                 s\<lparr>reader := snd (CommitMessages m (reader s)),
                   sys := snd (handleMessage cd c m (sys (retry_state cd c m s)))\<rparr>)"
proof -
  let ?s1 = "retry_state cd c m s"
  let ?s2 = "s\<lparr>reader := snd (CommitMessages m (reader s)),
               sys := snd (handleMessage cd c m (sys ?s1))\<rparr>"
  have first: "consume_iteration cd c s = (None, ?s1)"
    by (rule consume_iteration_failed [OF run fetch failed])
  have "consume_fetched cd c m ?s1 = (Returns (), ?s2)"
    using consume_fetched_ok [of cd c m ?s1] ok commit by (simp add: retry_state_def)
  then have second: "consume_iteration cd c ?s1 = (None, ?s2)"
    using consume_iteration_fetched [of ?s1 m cd c] run fetch by simp
  have third: "consume_iteration cd c ?s2 = (Some Stopped, ?s2)"
    using consume_iteration_drained [of ?s2 cd c] run last by simp
  show ?thesis by (simp add: first second third)
qed

text \<open>
  C5. For a fetched message \<open>m\<close>, \<open>handleMessage\<close> returns success exactly when the
  body deserializes and either no handler is registered for the type or the registered
  handler returns success. The loop calls \<open>CommitMessages\<close> for \<open>m\<close> exactly in that
  case, and a commit that works moves the reader past \<open>m\<close>. In every other case the
  reader is left as it was. When \<open>handleMessage\<close> returns an error for the message
  that the pass has fetched, the pass ends without a commit and the loop goes on; its
  next pass fetches again and gives the same message \<open>m\<close> to \<open>handleMessage\<close>. If the
  handling succeeds this second time, \<open>m\<close> is committed then, and a loop with nothing
  else to deliver stops after its third pass, the world being the one left by the two
  handlings of \<open>m\<close>.
\<close>

theorem dispatcher_commits_iff_handled:
  "(fst (handleMessage cd c m (sys s)) = Returns None) = handled_ok cd c m (sys s)
   \<and> commit_calls (reader (snd (consume_fetched cd c m s))) =
       commit_calls (reader s) @ (if handled_ok cd c m (sys s) then [m] else [])
   \<and> (handled_ok cd c m (sys s) \<and> commit_fault (reader s) m = None \<longrightarrow>
        position (reader (snd (consume_fetched cd c m s))) = Offset m + 1)
   \<and> (\<not> handled_ok cd c m (sys s) \<longrightarrow> reader (snd (consume_fetched cd c m s)) = reader s)
   \<and> (\<not> ctx_done s \<and> FetchMessage (reader s) = (Fetched m, reader s) \<and>
        fst (handleMessage cd c m (sys s)) = Returns (Some err) \<longrightarrow>
          consume_iteration cd c s = (None, retry_state cd c m s)
        \<and> consume_iteration cd c (retry_state cd c m s) =
            (case consume_fetched cd c m (retry_state cd c m s) of
               (Panics p, s2) \<Rightarrow> (Some (Crashed p), s2)
             | (Returns u, s2) \<Rightarrow> (None, s2))
        \<and> (handled_ok cd c m (sys (retry_state cd c m s)) \<and>
           commit_fault (reader s) m = None \<and>
           fst (FetchMessage (snd (CommitMessages m (reader s)))) = Canceled \<longrightarrow>
             consume_loop (Suc (Suc (Suc n))) cd c s =
               Some (Stopped,
                     s\<lparr>reader := snd (CommitMessages m (reader s)),
                       sys := snd (handleMessage cd c m (sys (retry_state cd c m s)))\<rparr>)))"
proof -
  have retry: "\<not> ctx_done s \<and> FetchMessage (reader s) = (Fetched m, reader s) \<and>
        fst (handleMessage cd c m (sys s)) = Returns (Some err) \<longrightarrow>
          consume_iteration cd c s = (None, retry_state cd c m s)
        \<and> consume_iteration cd c (retry_state cd c m s) =
            (case consume_fetched cd c m (retry_state cd c m s) of
               (Panics p, s2) \<Rightarrow> (Some (Crashed p), s2)
             | (Returns u, s2) \<Rightarrow> (None, s2))
        \<and> (handled_ok cd c m (sys (retry_state cd c m s)) \<and>
           commit_fault (reader s) m = None \<and>
           fst (FetchMessage (snd (CommitMessages m (reader s)))) = Canceled \<longrightarrow>
             consume_loop (Suc (Suc (Suc n))) cd c s =
               Some (Stopped,
                     s\<lparr>reader := snd (CommitMessages m (reader s)),
                       sys := snd (handleMessage cd c m (sys (retry_state cd c m s)))\<rparr>))"
  proof (intro impI, elim conjE, intro conjI impI)
    assume a: "\<not> ctx_done s" "FetchMessage (reader s) = (Fetched m, reader s)"
      "fst (handleMessage cd c m (sys s)) = Returns (Some err)"
    show "consume_iteration cd c s = (None, retry_state cd c m s)"
      by (rule consume_iteration_failed [OF a])
    show "consume_iteration cd c (retry_state cd c m s) =
            (case consume_fetched cd c m (retry_state cd c m s) of
               (Panics p, s2) \<Rightarrow> (Some (Crashed p), s2)
             | (Returns u, s2) \<Rightarrow> (None, s2))"
      using a(1,2) by (intro consume_iteration_fetched) simp_all
    assume b: "handled_ok cd c m (sys (retry_state cd c m s)) \<and>
           commit_fault (reader s) m = None \<and>
           fst (FetchMessage (snd (CommitMessages m (reader s)))) = Canceled"
    then show "consume_loop (Suc (Suc (Suc n))) cd c s =
               Some (Stopped,
                     s\<lparr>reader := snd (CommitMessages m (reader s)),
                       sys := snd (handleMessage cd c m (sys (retry_state cd c m s)))\<rparr>)"
      using consume_loop_retry [OF a] by blast
  qed
  have rest: "(fst (handleMessage cd c m (sys s)) = Returns None) = handled_ok cd c m (sys s)
   \<and> commit_calls (reader (snd (consume_fetched cd c m s))) =
       commit_calls (reader s) @ (if handled_ok cd c m (sys s) then [m] else [])
   \<and> (handled_ok cd c m (sys s) \<and> commit_fault (reader s) m = None \<longrightarrow>
        position (reader (snd (consume_fetched cd c m s))) = Offset m + 1)
   \<and> (\<not> handled_ok cd c m (sys s) \<longrightarrow> reader (snd (consume_fetched cd c m s)) = reader s)"
    by (simp add: handleMessage_ok_iff consume_fetched_reader CommitMessages_calls
        CommitMessages_position)
  from rest retry show ?thesis by blast
qed

text \<open>
  One message at offset 0 whose body is \<open>ex_event\<close>, and a handler that fails the first
  time and succeeds the second. The first pass commits nothing and leaves the reader at
  offset 0; three passes end with the loop stopped, the message committed once, the
  reader at offset 1 and the handler's mark in the world. A body that does not
  deserialize is not committed either.
\<close>

theorem dispatcher_commits_iff_handled_witness:
  "consume_iteration ex_codec ex_flaky_consumer (ex_cstate [ex_message 0 [1]]) =
     (None, retry_state ex_codec ex_flaky_consumer (ex_message 0 [1]) (ex_cstate [ex_message 0 [1]]))
   \<and> commit_calls (reader (retry_state ex_codec ex_flaky_consumer (ex_message 0 [1])
        (ex_cstate [ex_message 0 [1]]))) = []
   \<and> position (reader (retry_state ex_codec ex_flaky_consumer (ex_message 0 [1])
        (ex_cstate [ex_message 0 [1]]))) = 0
   \<and> map_option fst (consume_loop (Suc (Suc (Suc 0))) ex_codec ex_flaky_consumer
        (ex_cstate [ex_message 0 [1]])) = Some Stopped
   \<and> map_option (\<lambda>r. commit_calls (reader (snd r)))
        (consume_loop (Suc (Suc (Suc 0))) ex_codec ex_flaky_consumer
           (ex_cstate [ex_message 0 [1]])) = Some [ex_message 0 [1]]
   \<and> map_option (\<lambda>r. position (reader (snd r)))
        (consume_loop (Suc (Suc (Suc 0))) ex_codec ex_flaky_consumer
           (ex_cstate [ex_message 0 [1]])) = Some 1
   \<and> map_option (\<lambda>r. published (sys (snd r)))
        (consume_loop (Suc (Suc (Suc 0))) ex_codec ex_flaky_consumer
           (ex_cstate [ex_message 0 [1]])) = Some [(''seen'', ''e1'')]
   \<and> commit_calls (reader (snd (consume_fetched ex_codec ex_flaky_consumer
        (ex_message 0 [2]) (ex_cstate [ex_message 0 [2]])))) = []"
proof -
  let ?m = "ex_message 0 [1]"
  let ?s = "ex_cstate [?m]"
  have st: "sys (ex_cstate ms) = empty_world" "reader (ex_cstate ms) = ex_reader ms"
    "\<not> ctx_done (ex_cstate ms)" "commit_calls (ex_reader ms) = []"
    "position (ex_reader ms) = 0"
    "commit_fault (ex_reader ms) m = None" "Offset (ex_message 0 b) = 0" for ms m b
    by (simp_all add: ex_cstate_def ex_reader_def ex_message_def)
  have fetch: "FetchMessage (reader ?s) = (Fetched ?m, reader ?s)"
    by (simp add: FetchMessage_def ex_cstate_def ex_reader_def ex_message_def)
  have failed: "fst (handleMessage ex_codec ex_flaky_consumer ?m (sys ?s)) =
      Returns (Some (Wrapf ''handler failed for event'' (ErrorsNew ''busy'')))"
    by (simp add: handleMessage_def ex_codec_def ex_message_def ex_flaky_consumer_def
        ex_flaky_def ex_event_def ex_cstate_def empty_world_def logf_def)
  have w1: "published (sys (retry_state ex_codec ex_flaky_consumer ?m ?s)) = [(''seen'', ''e1'')]"
    by (simp add: retry_state_def handleMessage_def ex_codec_def ex_message_def
        ex_flaky_consumer_def ex_flaky_def ex_event_def ex_cstate_def empty_world_def logf_def)
  have ok: "handled_ok ex_codec ex_flaky_consumer ?m
      (sys (retry_state ex_codec ex_flaky_consumer ?m ?s))"
    using w1
    by (simp add: handled_ok_def ex_codec_def ex_message_def ex_flaky_consumer_def
        ex_flaky_def ex_event_def dispatch_world_def logf_def)
  have w2: "published (snd (handleMessage ex_codec ex_flaky_consumer ?m
      (sys (retry_state ex_codec ex_flaky_consumer ?m ?s)))) = [(''seen'', ''e1'')]"
    using w1
    by (simp add: handleMessage_def ex_codec_def ex_message_def ex_flaky_consumer_def
        ex_flaky_def ex_event_def logf_def)
  have last: "fst (FetchMessage (snd (CommitMessages ?m (reader ?s)))) = Canceled"
    by (simp add: FetchMessage_def CommitMessages_def ex_cstate_def ex_reader_def
        ex_message_def)
  have bad: "\<not> handled_ok ex_codec ex_flaky_consumer (ex_message 0 [2]) empty_world"
    by (simp add: handled_ok_def ex_codec_def ex_message_def)
  show ?thesis
    using dispatcher_commits_iff_handled
        [of ex_codec ex_flaky_consumer ?m ?s
            "Wrapf ''handler failed for event'' (ErrorsNew ''busy'')" 0]
      dispatcher_commits_iff_handled
        [of ex_codec ex_flaky_consumer "ex_message 0 [2]" "ex_cstate [ex_message 0 [2]]"]
      fetch failed ok last bad w2
    by (simp add: st CommitMessages_calls CommitMessages_position
        del: consume_loop.simps)
qed

section \<open>The user-created handler\<close>

lemma Handle_missing_user_id:
  assumes "Type_ev ev = EventTypeUserCreated cd"
    and "marshal_Data cd (Data ev) = Inr raw"
    and "unmarshal_UserCreatedEvent cd raw = Inr u"
    and "UserID_uc u = []"
  shows "Handle cd h ev w =
           (Returns None,
            w\<lparr>logs := logs w @ [(Info, ''Handling events''),
                                 (Info, ''Processing user created event''),
                                 (Error, ''User created event missing UserID''),
                                 (Info, ''User created event handled successfully'')]\<rparr>)"
  using assms by (simp add: Handle_def handleUserCreated_def logf_def)

text \<open>
  C10. A user-created envelope whose decoded user identifier is empty makes the
  handler return success, whatever the orchestrator and the publisher are: the world
  changes by four log lines only, so \<open>UploadAsset\<close> is not invoked and nothing is
  published. With the handler registered, the dispatcher finds the message handled,
  commits it, and, the commit working, moves the reader past it: later fetches do not
  deliver it again.
\<close>

theorem user_created_without_user_id:
  assumes "Type_ev ev = EventTypeUserCreated cd"
    and "marshal_Data cd (Data ev) = Inr raw"
    and "unmarshal_UserCreatedEvent cd raw = Inr u"
    and "UserID_uc u = []"
    and "unmarshal_DomainEvent cd (Value m) = Inr ev"
    and "commit_fault (reader s) m = None"
  shows "Handle cd h ev w =
           (Returns None,
            w\<lparr>logs := logs w @ [(Info, ''Handling events''),
                                 (Info, ''Processing user created event''),
                                 (Error, ''User created event missing UserID''),
                                 (Info, ''User created event handled successfully'')]\<rparr>)
       \<and> fst (handleMessage cd (RegisterHandlers cd h c) m (sys s)) = Returns None
       \<and> commit_calls (reader (snd (consume_fetched cd (RegisterHandlers cd h c) m s))) =
           commit_calls (reader s) @ [m]
       \<and> fst (FetchMessage (reader (snd (consume_fetched cd (RegisterHandlers cd h c) m s)))) \<noteq>
           Fetched m
       \<and> published (sys (snd (consume_fetched cd (RegisterHandlers cd h c) m s))) = published (sys s)
       \<and> calls (sys (snd (consume_fetched cd (RegisterHandlers cd h c) m s))) = calls (sys s)"
proof -
  let ?c = "RegisterHandlers cd h c"
  have ok: "handled_ok cd ?c m (sys s)"
    using assms(5) Handle_missing_user_id [OF assms(1-4)]
    by (simp add: handled_ok_def RegisterHandlers_def RegisterHandler_def assms(1))
  have pos: "position (reader (snd (consume_fetched cd ?c m s))) = Offset m + 1"
    using ok assms(6) by (simp add: consume_fetched_reader CommitMessages_position)
  have nofetch: "fst (FetchMessage (reader (snd (consume_fetched cd ?c m s)))) \<noteq> Fetched m"
    by (rule FetchMessage_after_position) (simp add: pos)
  have sysw: "sys (snd (consume_fetched cd ?c m s)) = snd (handleMessage cd ?c m (sys s))"
    using ok assms(6) unfolding handleMessage_ok_iff [symmetric]
    by (auto simp add: consume_fetched_def CommitMessages_def Let_def split: prod.splits)
  have hm: "snd (handleMessage cd ?c m (sys s)) =
      (sys s)\<lparr>logs := logs (snd (handleMessage cd ?c m (sys s)))\<rparr>"
    using assms(5) Handle_missing_user_id [OF assms(1-4)]
    by (simp add: handleMessage_def RegisterHandlers_def RegisterHandler_def assms(1) logf_def)
  have "published (snd (handleMessage cd ?c m (sys s))) = published (sys s)"
    "calls (snd (handleMessage cd ?c m (sys s))) = calls (sys s)"
    by (subst hm, simp)+
  with ok nofetch sysw show ?thesis
    using Handle_missing_user_id [OF assms(1-4)]
    by (simp add: handleMessage_ok_iff consume_fetched_reader CommitMessages_calls)
qed

text \<open>The envelope \<open>ex_event\<close>, whose \<open>user_id\<close> is the empty string, in a message at offset 0.\<close>

theorem user_created_without_user_id_witness:
  "Handle ex_codec ex_handler ex_event empty_world =
     (Returns None,
      empty_world\<lparr>logs := [(Info, ''Handling events''),
                           (Info, ''Processing user created event''),
                           (Error, ''User created event missing UserID''),
                           (Info, ''User created event handled successfully'')]\<rparr>)
   \<and> commit_calls (reader (snd (consume_fetched ex_codec
        (RegisterHandlers ex_codec ex_handler \<lparr>handlers = Map.empty\<rparr>)
        (ex_message 0 [1]) (ex_cstate [ex_message 0 [1]])))) = [ex_message 0 [1]]
   \<and> calls (sys (snd (consume_fetched ex_codec
        (RegisterHandlers ex_codec ex_handler \<lparr>handlers = Map.empty\<rparr>)
        (ex_message 0 [1]) (ex_cstate [ex_message 0 [1]])))) = []"
  using user_created_without_user_id
    [of ex_event ex_codec "[]" "ex_user []" "ex_message 0 [1]" "ex_cstate [ex_message 0 [1]]"
        ex_handler empty_world "\<lparr>handlers = Map.empty\<rparr>"]
  by (simp add: ex_codec_def ex_event_def ex_user_def ex_message_def ex_cstate_def ex_reader_def
      empty_world_def)

end
